theory Spec2Isabelle
  imports Main "HOL-Library.Word"
begin

section \<open>The SecretMessage contract (contracts/SecretMsg\_FHE.sol)\<close>

text \<open>
  A shallow embedding of the Solidity contract \<^verbatim>\<open>SecretMessage\<close>. Storage is a record
  that every external function takes and returns; a \<^verbatim>\<open>require\<close> that fails, or a revert
  inside a library call, is the \<open>Inl\<close> branch of the result, and the events a call emits
  are returned beside the new storage.
\<close>

subsection \<open>Value types\<close>

type_synonym uint256 = "256 word"
type_synonym uint32 = "32 word"
type_synonym address = "160 word"
type_synonym bytes32 = "256 word"
type_synonym bytes = "8 word list"

text \<open>
  \<^verbatim>\<open>euint32\<close> and \<^verbatim>\<open>externalEuint32\<close> are user-defined value types over \<^verbatim>\<open>bytes32\<close>:
  opaque ciphertext handles.
\<close>

type_synonym euint32 = bytes32
type_synonym externalEuint32 = bytes32

subsection \<open>Storage\<close>

record EncryptedMessage =
  encryptedContent :: euint32
  expirationTime :: uint256
  isBurnAfterReading :: bool
  isDecrypted :: bool
  sender :: address
  timestamp :: uint256
  condition :: string
  decryptedContent :: uint32

text \<open>
  A Solidity mapping is total: a slot that was never written, or that \<^verbatim>\<open>delete\<close> has
  cleared, reads as the zero value of the struct.
\<close>

definition zeroMessage :: EncryptedMessage where
  "zeroMessage =
     \<lparr>encryptedContent = 0, expirationTime = 0, isBurnAfterReading = False,
      isDecrypted = False, sender = 0, timestamp = 0, condition = [],
      decryptedContent = 0\<rparr>"

datatype event =
    MessageSent string address
  | MessageDecrypted string uint32
  | MessageBurned string

text \<open>
  The two permissions that \<^verbatim>\<open>sendMessage\<close> grants on the coprocessor's access-control
  list, \<^verbatim>\<open>FHE.allowThis\<close> and \<^verbatim>\<open>FHE.makePubliclyDecryptable\<close>, are kept as a log.
\<close>

datatype grant = AllowThis euint32 | PubliclyDecryptable euint32

record contract =
  encryptedMessages :: "string \<Rightarrow> EncryptedMessage"
  messageIds :: "string list"
  grants :: "grant list"

definition deployed :: contract where
  "deployed = \<lparr>encryptedMessages = (\<lambda>_. zeroMessage), messageIds = [], grants = []\<rparr>"

subsection \<open>The FHE library\<close>

text \<open>
  The library \<^verbatim>\<open>@fhevm/solidity/lib/FHE.sol\<close> is imported by the contract and is not part of
  the repository, so the four functions the contract calls are parameters of the model.
  \<open>fromExternal\<close> verifies the input proof for the transaction's sender and reverts
  (\<open>None\<close>) when it does not hold; \<open>checkSignatures\<close> reverts (\<open>False\<close>) when the
  decryption proof does not attest the clear values for the handles.
\<close>

record fhe =
  fromExternal :: "address \<Rightarrow> externalEuint32 \<Rightarrow> bytes \<Rightarrow> euint32 option"
  isInitialized :: "euint32 \<Rightarrow> bool"
  toBytes32 :: "euint32 \<Rightarrow> bytes32"
  checkSignatures :: "bytes32 list \<Rightarrow> bytes \<Rightarrow> bytes \<Rightarrow> bool"

subsection \<open>Reverts\<close>

text \<open>
  One constructor for each way a call can revert:
  \<^item> \<open>DuplicateId\<close>: \<^verbatim>\<open>"Message ID already exists"\<close>;
  \<^item> \<open>InputProofRejected\<close>: the revert inside \<^verbatim>\<open>FHE.fromExternal\<close>;
  \<^item> \<open>MalformedCiphertext\<close>: \<^verbatim>\<open>"Invalid encrypted content"\<close>;
  \<^item> \<open>NotFound\<close>: \<^verbatim>\<open>"Message does not exist"\<close>;
  \<^item> \<open>AlreadyDecrypted\<close>: \<^verbatim>\<open>"Message already decrypted"\<close>;
  \<^item> \<open>Expired\<close>: \<^verbatim>\<open>"Message expired"\<close>;
  \<^item> \<open>InvalidProof\<close>: the revert inside \<^verbatim>\<open>FHE.checkSignatures\<close>;
  \<^item> \<open>DecodeFailed\<close>: the revert of \<^verbatim>\<open>abi.decode\<close>.
\<close>

datatype error =
    DuplicateId
  | InputProofRejected
  | MalformedCiphertext
  | NotFound
  | AlreadyDecrypted
  | Expired
  | InvalidProof
  | DecodeFailed

subsection \<open>ABI decoding\<close>

text \<open>
  \<^verbatim>\<open>abi.decode(data, (uint32))\<close> is a builtin of the language: it reverts unless the data
  holds at least one 32-byte word, reads the first word as a big-endian number, and
  reverts when that number does not fit 32 bits. Bytes after the first word are ignored.
\<close>

definition be_nat :: "bytes \<Rightarrow> nat" where
  "be_nat bs = foldl (\<lambda>acc b. acc * 256 + unat b) 0 bs"

definition abi_decode_uint32 :: "bytes \<Rightarrow> uint32 option" where
  "abi_decode_uint32 bs =
     (if length bs < 32 then None
      else let v = be_nat (take 32 bs)
           in if v < 2 ^ 32 then Some (of_nat v) else None)"

subsection \<open>External functions\<close>

text \<open>
  \<^verbatim>\<open>sendMessage\<close>, with \<^verbatim>\<open>msg.sender\<close> and \<^verbatim>\<open>block.timestamp\<close> as the first arguments
  after the library. The source calls \<^verbatim>\<open>FHE.fromExternal\<close> twice on the same arguments
  (in the second \<^verbatim>\<open>require\<close> and in the struct literal); the model binds its result once.
\<close>

definition sendMessage ::
  "fhe \<Rightarrow> address \<Rightarrow> uint256 \<Rightarrow> string \<Rightarrow> externalEuint32 \<Rightarrow> bytes \<Rightarrow> uint256 \<Rightarrow> bool \<Rightarrow> string
     \<Rightarrow> contract \<Rightarrow> error + (event list \<times> contract)" where
  "sendMessage lib msg_sender block_timestamp messageId extContent inputProof expTime burn cond s =
     (if \<not> (length (condition (encryptedMessages s messageId)) = 0) then Inl DuplicateId
      else case fromExternal lib msg_sender extContent inputProof of
        None \<Rightarrow> Inl InputProofRejected
      | Some handle \<Rightarrow>
          if \<not> isInitialized lib handle then Inl MalformedCiphertext
          else
            let s1 = s\<lparr>encryptedMessages := (encryptedMessages s)(messageId :=
                       \<lparr>encryptedContent = handle,
                        expirationTime = expTime,
                        isBurnAfterReading = burn,
                        isDecrypted = False,
                        sender = msg_sender,
                        timestamp = block_timestamp,
                        condition = cond,
                        decryptedContent = 0\<rparr>)\<rparr>;
                s2 = s1\<lparr>grants := grants s1 @
                       [AllowThis (encryptedContent (encryptedMessages s1 messageId))]\<rparr>;
                s3 = s2\<lparr>grants := grants s2 @
                       [PubliclyDecryptable (encryptedContent (encryptedMessages s2 messageId))]\<rparr>;
                s4 = s3\<lparr>messageIds := messageIds s3 @ [messageId]\<rparr>
            in Inr ([MessageSent messageId msg_sender], s4))"

definition decryptMessage ::
  "fhe \<Rightarrow> uint256 \<Rightarrow> string \<Rightarrow> bytes \<Rightarrow> bytes \<Rightarrow> contract \<Rightarrow> error + (event list \<times> contract)" where
  "decryptMessage lib block_timestamp messageId abiEncodedClearValue decryptionProof s =
     (if \<not> (length (condition (encryptedMessages s messageId)) > 0) then Inl NotFound
      else if \<not> (\<not> isDecrypted (encryptedMessages s messageId)) then Inl AlreadyDecrypted
      else if \<not> (block_timestamp \<le> expirationTime (encryptedMessages s messageId)) then Inl Expired
      else
        let cts = [toBytes32 lib (encryptedContent (encryptedMessages s messageId))]
        in if \<not> checkSignatures lib cts abiEncodedClearValue decryptionProof then Inl InvalidProof
           else case abi_decode_uint32 abiEncodedClearValue of
             None \<Rightarrow> Inl DecodeFailed
           | Some decodedValue \<Rightarrow>
               let s1 = s\<lparr>encryptedMessages := (encryptedMessages s)(messageId :=
                          (encryptedMessages s messageId)\<lparr>decryptedContent := decodedValue\<rparr>)\<rparr>;
                   s2 = s1\<lparr>encryptedMessages := (encryptedMessages s1)(messageId :=
                          (encryptedMessages s1 messageId)\<lparr>isDecrypted := True\<rparr>)\<rparr>
               in if isBurnAfterReading (encryptedMessages s2 messageId)
                  then Inr ([MessageBurned messageId],
                            s2\<lparr>encryptedMessages := (encryptedMessages s2)(messageId := zeroMessage)\<rparr>)
                  else Inr ([MessageDecrypted messageId decodedValue], s2))"

text \<open>
  \<^verbatim>\<open>getMessage\<close> returns every field of the struct but the ciphertext handle, in the
  order of the source's return tuple.
\<close>

definition getMessage ::
  "string \<Rightarrow> contract
     \<Rightarrow> error + (uint256 \<times> bool \<times> bool \<times> address \<times> uint256 \<times> string \<times> uint32)" where
  "getMessage messageId s =
     (if \<not> (length (condition (encryptedMessages s messageId)) > 0) then Inl NotFound
      else let message = encryptedMessages s messageId
           in Inr (expirationTime message, isBurnAfterReading message, isDecrypted message,
                   sender message, timestamp message, condition message,
                   decryptedContent message))"

definition getAllMessageIds :: "contract \<Rightarrow> string list" where
  "getAllMessageIds s = messageIds s"

definition getEncryptedContent :: "string \<Rightarrow> contract \<Rightarrow> error + euint32" where
  "getEncryptedContent messageId s =
     (if \<not> (length (condition (encryptedMessages s messageId)) > 0) then Inl NotFound
      else Inr (encryptedContent (encryptedMessages s messageId)))"

definition isAvailable :: bool where
  "isAvailable = True"

subsection \<open>Transactions\<close>

text \<open>
  The two state-changing entry points, each with the \<^verbatim>\<open>msg.sender\<close> and
  \<^verbatim>\<open>block.timestamp\<close> of its transaction. A transaction that reverts leaves storage as
  it was; one that returns commits the storage it computed.
\<close>

datatype call =
    SendMessage address uint256 string externalEuint32 bytes uint256 bool string
  | DecryptMessage uint256 string bytes bytes

fun exec :: "fhe \<Rightarrow> call \<Rightarrow> contract \<Rightarrow> error + (event list \<times> contract)" where
  "exec lib (SendMessage who now mid ext prf expTime burn cond) s =
     sendMessage lib who now mid ext prf expTime burn cond s"
| "exec lib (DecryptMessage now mid clear prf) s =
     decryptMessage lib now mid clear prf s"

definition transact :: "fhe \<Rightarrow> contract \<Rightarrow> call \<Rightarrow> contract" where
  "transact lib s c = (case exec lib c s of Inl e \<Rightarrow> s | Inr (evs, s') \<Rightarrow> s')"

definition run :: "fhe \<Rightarrow> contract \<Rightarrow> call list \<Rightarrow> contract" where
  "run lib s cs = foldl (transact lib) s cs"

text \<open>A record exists when its condition is not empty: the test of every \<^verbatim>\<open>require\<close>.\<close>

definition exists_msg :: "contract \<Rightarrow> string \<Rightarrow> bool" where
  "exists_msg s messageId = (length (condition (encryptedMessages s messageId)) > 0)"

subsection \<open>A fake coprocessor for running the contract\<close>

text \<open>
  Concrete inputs need a concrete library. This one accepts every input whose proof is
  not empty, takes the external handle as the handle, and accepts a decryption proof
  that is the single byte 1 for a non-empty batch of handles.
\<close>

definition fake_fhe :: fhe where
  "fake_fhe =
     \<lparr>fromExternal = (\<lambda>who ext prf. if prf = [] then None else Some ext),
      isInitialized = (\<lambda>h. h \<noteq> 0),
      toBytes32 = (\<lambda>h. h),
      checkSignatures = (\<lambda>cts clear prf. cts \<noteq> [] \<and> prf = [1])\<rparr>"

text \<open>The ABI encoding of a \<^verbatim>\<open>uint32\<close>: one 32-byte big-endian word.\<close>

definition enc :: "uint32 \<Rightarrow> bytes" where
  "enc v = replicate 28 0 @
     [ucast (drop_bit 24 v), ucast (drop_bit 16 v), ucast (drop_bit 8 v), ucast v]"

subsection \<open>Histories\<close>

text \<open>
  Tests on calls and histories: \<open>creates mid c\<close> holds when \<open>c\<close> is a
  \<^verbatim>\<open>sendMessage\<close> for \<open>mid\<close> with a condition that is not empty, \<open>decrypts mid c\<close> when
  it is a \<^verbatim>\<open>decryptMessage\<close> for \<open>mid\<close>, and \<open>alive_through lib s mid cs\<close> when the record
  of \<open>mid\<close> exists in \<open>s\<close> and after each transaction of \<open>cs\<close>. A call burns \<open>mid\<close> in
  a state when it returns and emits \<^verbatim>\<open>MessageBurned(mid)\<close>; \<open>burned_in lib s mid cs\<close> holds when
  some transaction of \<open>cs\<close>, run from \<open>s\<close>, does.
\<close>

fun creates :: "string \<Rightarrow> call \<Rightarrow> bool" where
  "creates mid (SendMessage who now mid' ext prf expTime burn cond) = (mid' = mid \<and> cond \<noteq> [])"
| "creates mid (DecryptMessage now mid' clear prf) = False"

fun decrypts :: "string \<Rightarrow> call \<Rightarrow> bool" where
  "decrypts mid (SendMessage who now mid' ext prf expTime burn cond) = False"
| "decrypts mid (DecryptMessage now mid' clear prf) = (mid' = mid)"

fun alive_through :: "fhe \<Rightarrow> contract \<Rightarrow> string \<Rightarrow> call list \<Rightarrow> bool" where
  "alive_through lib s mid [] = exists_msg s mid"
| "alive_through lib s mid (c # cs) = (exists_msg s mid \<and> alive_through lib (transact lib s c) mid cs)"

definition burned_by :: "fhe \<Rightarrow> contract \<Rightarrow> string \<Rightarrow> call \<Rightarrow> bool" where
  "burned_by lib s mid c =
     (case exec lib c s of Inl e \<Rightarrow> False | Inr (evs, s') \<Rightarrow> MessageBurned mid \<in> set evs)"

fun burned_in :: "fhe \<Rightarrow> contract \<Rightarrow> string \<Rightarrow> call list \<Rightarrow> bool" where
  "burned_in lib s mid [] = False"
| "burned_in lib s mid (c # cs) = (burned_by lib s mid c \<or> burned_in lib (transact lib s c) mid cs)"

subsection \<open>Scenarios\<close>

text \<open>
  The scenarios of the specification on the fake coprocessor: a message \<^verbatim>\<open>m1\<close> sent at
  time 100 that expires at 3700, decrypted to 42 at time 110.
\<close>

definition send_m1 :: "bool \<Rightarrow> string \<Rightarrow> call" where
  "send_m1 burn cond = SendMessage 7 100 ''m1'' 5 [1] 3700 burn cond"

definition read_m1 :: "uint256 \<Rightarrow> call" where
  "read_m1 now = DecryptMessage now ''m1'' (enc 42) [1]"

definition m1_kept_sent :: contract where
  "m1_kept_sent = transact fake_fhe deployed (send_m1 False ''noon'')"

definition m1_kept_read :: contract where
  "m1_kept_read = transact fake_fhe m1_kept_sent (read_m1 110)"

definition m1_burn_sent :: contract where
  "m1_burn_sent = transact fake_fhe deployed (send_m1 True ''noon'')"

definition m1_burn_read :: contract where
  "m1_burn_read = transact fake_fhe m1_burn_sent (read_m1 110)"

definition m1_burn_resent :: contract where
  "m1_burn_resent = transact fake_fhe m1_burn_read (send_m1 True ''dusk'')"

definition m1_blank_sent :: contract where
  "m1_blank_sent = transact fake_fhe deployed (send_m1 False [])"

section \<open>Basic facts\<close>

lemma be_nat_zeros: "be_nat (replicate n 0) = 0"
  unfolding be_nat_def by (induction n) simp_all

lemma be_nat_snoc4:
  "be_nat (xs @ [a, b, c, d]) =
     (((be_nat xs * 256 + unat a) * 256 + unat b) * 256 + unat c) * 256 + unat d"
  by (simp add: be_nat_def)

text \<open>Decoding undoes \<open>enc\<close>: the four low bytes of the word spell the number.\<close>

lemma four_bytes:
  fixes x :: nat
  assumes "x < 256 * 256 * 256 * 256"
  shows "((x div 256 div 256 div 256 mod 256 * 256 + x div 256 div 256 mod 256) * 256
           + x div 256 mod 256) * 256 + x mod 256 = x"
proof -
  have "x div 256 div 256 div 256 < 256"
    using assms by (simp add: less_mult_imp_div_less)
  then have "x div 256 div 256 div 256 mod 256 = x div 256 div 256 div 256"
    by simp
  then show ?thesis
    by (simp add: mult_div_mod_eq)
qed

lemma be_nat_enc: "be_nat (enc v) = unat v"
proof -
  have "unat v < 2 ^ 32"
    using unsigned_less [of v, where 'a = nat] by simp
  then have lt: "unat v < 256 * 256 * 256 * 256"
    by simp
  have d8: "unat (drop_bit 8 v) = unat v div 256"
    unfolding unat_drop_bit_eq by (simp add: drop_bit_eq_div)
  have d16: "unat (drop_bit 16 v) = unat v div 256 div 256"
    unfolding unat_drop_bit_eq by (simp add: drop_bit_eq_div div_mult2_eq [symmetric])
  have d24: "unat (drop_bit 24 v) = unat v div 256 div 256 div 256"
    unfolding unat_drop_bit_eq by (simp add: drop_bit_eq_div div_mult2_eq [symmetric])
  show ?thesis
    unfolding enc_def be_nat_snoc4 be_nat_zeros
    using four_bytes [OF lt] by (simp add: unsigned_ucast_eq take_bit_eq_mod d8 d16 d24)
qed

lemma decode_enc: "abi_decode_uint32 (enc v) = Some v"
proof -
  have "unat v < 2 ^ 32"
    using unsigned_less [of v, where 'a = nat] by simp
  moreover have "take 32 (enc v) = enc v" and "\<not> length (enc v) < 32"
    by (simp_all add: enc_def)
  ultimately show ?thesis
    by (simp add: abi_decode_uint32_def be_nat_enc)
qed

lemma run_Nil: "run lib s [] = s"
  by (simp add: run_def)

lemma run_Cons: "run lib s (c # cs) = run lib (transact lib s c) cs"
  by (simp add: run_def)

lemma run_snoc: "run lib s (cs @ [c]) = transact lib (run lib s cs) c"
  by (simp add: run_def)

lemma decryptMessage_Inr:
  assumes "decryptMessage lib now mid clear prf s = Inr (evs, s')"
  shows "exists_msg s mid"
    and "\<not> isDecrypted (encryptedMessages s mid)"
    and "now \<le> expirationTime (encryptedMessages s mid)"
    and "checkSignatures lib [toBytes32 lib (encryptedContent (encryptedMessages s mid))] clear prf"
    and "\<exists>v. abi_decode_uint32 clear = Some v \<and>
           (if isBurnAfterReading (encryptedMessages s mid)
            then evs = [MessageBurned mid] \<and>
                 s' = s\<lparr>encryptedMessages := (encryptedMessages s)(mid := zeroMessage)\<rparr>
            else evs = [MessageDecrypted mid v] \<and>
                 s' = s\<lparr>encryptedMessages := (encryptedMessages s)(mid :=
                        (encryptedMessages s mid)\<lparr>decryptedContent := v, isDecrypted := True\<rparr>)\<rparr>)"
  using assms
  by (auto simp: decryptMessage_def exists_msg_def Let_def split: if_splits option.splits)

lemma sendMessage_Inr:
  assumes "sendMessage lib who now mid ext prf expT burn cond s = Inr (evs, s')"
  shows "\<not> exists_msg s mid"
    and "\<exists>h. fromExternal lib who ext prf = Some h \<and> isInitialized lib h \<and>
           evs = [MessageSent mid who] \<and>
           s' = \<lparr>encryptedMessages = (encryptedMessages s)(mid :=
                    \<lparr>encryptedContent = h, expirationTime = expT, isBurnAfterReading = burn,
                     isDecrypted = False, sender = who, timestamp = now, condition = cond,
                     decryptedContent = 0\<rparr>),
                 messageIds = messageIds s @ [mid],
                 grants = grants s @ [AllowThis h, PubliclyDecryptable h]\<rparr>"
  using assms
  by (auto simp: sendMessage_def exists_msg_def Let_def split: if_splits option.splits)

lemma sendMessage_exists:
  "exists_msg s mid \<Longrightarrow> sendMessage lib who now mid ext prf expT burn cond s = Inl DuplicateId"
  by (simp add: sendMessage_def exists_msg_def)

lemma decryptMessage_absent:
  "\<not> exists_msg s mid \<Longrightarrow> decryptMessage lib now mid clear prf s = Inl NotFound"
  by (simp add: decryptMessage_def exists_msg_def)

lemma decryptMessage_done:
  "exists_msg s mid \<Longrightarrow> isDecrypted (encryptedMessages s mid) \<Longrightarrow>
     decryptMessage lib now mid clear prf s = Inl AlreadyDecrypted"
  by (simp add: decryptMessage_def exists_msg_def)

lemma transact_messageIds:
  "set (messageIds s) \<subseteq> set (messageIds (transact lib s c))"
  by (cases c)
     (auto simp: transact_def sendMessage_def decryptMessage_def Let_def
           split: if_splits option.splits sum.splits)

lemma transact_absent:
  "\<not> exists_msg s mid \<Longrightarrow> \<not> creates mid c \<Longrightarrow> \<not> exists_msg (transact lib s c) mid"
  by (cases c)
     (auto simp: transact_def sendMessage_def decryptMessage_def exists_msg_def Let_def zeroMessage_def
           split: if_splits option.splits sum.splits)

lemma transact_done:
  "exists_msg s mid \<Longrightarrow> isDecrypted (encryptedMessages s mid) \<Longrightarrow>
     encryptedMessages (transact lib s c) mid = encryptedMessages s mid"
  by (cases c)
     (auto simp: transact_def sendMessage_def decryptMessage_def exists_msg_def Let_def
           split: if_splits option.splits sum.splits)

lemma transact_no_decrypt:
  "exists_msg s mid \<Longrightarrow> \<not> decrypts mid c \<Longrightarrow>
     encryptedMessages (transact lib s c) mid = encryptedMessages s mid"
  by (cases c)
     (auto simp: transact_def sendMessage_def decryptMessage_def exists_msg_def Let_def
           split: if_splits option.splits sum.splits)

lemma transact_handle:
  "exists_msg s mid \<Longrightarrow> exists_msg (transact lib s c) mid \<Longrightarrow>
     encryptedContent (encryptedMessages (transact lib s c) mid) =
     encryptedContent (encryptedMessages s mid)"
  by (cases c)
     (auto simp: transact_def sendMessage_def decryptMessage_def exists_msg_def Let_def zeroMessage_def
           split: if_splits option.splits sum.splits)

lemma transact_listed:
  "(exists_msg s mid \<longrightarrow> mid \<in> set (messageIds s)) \<Longrightarrow>
   exists_msg (transact lib s c) mid \<Longrightarrow> mid \<in> set (messageIds (transact lib s c))"
  by (cases c)
     (auto simp: transact_def sendMessage_def decryptMessage_def exists_msg_def Let_def zeroMessage_def
           split: if_splits option.splits sum.splits)

lemma transact_flag:
  "(isDecrypted (encryptedMessages s mid) \<longrightarrow> exists_msg s mid) \<Longrightarrow>
   isDecrypted (encryptedMessages (transact lib s c) mid) \<Longrightarrow> exists_msg (transact lib s c) mid"
  by (cases c)
     (auto simp: transact_def sendMessage_def decryptMessage_def exists_msg_def Let_def zeroMessage_def
           split: if_splits option.splits sum.splits)

lemma reachable_listed:
  "exists_msg (run lib deployed cs) mid \<Longrightarrow> mid \<in> set (messageIds (run lib deployed cs))"
proof (induction cs rule: rev_induct)
  case Nil
  then show ?case by (simp add: run_Nil deployed_def exists_msg_def zeroMessage_def)
next
  case (snoc c cs)
  then show ?case unfolding run_snoc by (blast intro: transact_listed)
qed

lemma reachable_flag:
  "isDecrypted (encryptedMessages (run lib deployed cs) mid) \<Longrightarrow> exists_msg (run lib deployed cs) mid"
proof (induction cs rule: rev_induct)
  case Nil
  then show ?case by (simp add: run_Nil deployed_def zeroMessage_def)
next
  case (snoc c cs)
  then show ?case unfolding run_snoc by (blast intro: transact_flag)
qed

lemma run_absent:
  "\<not> exists_msg s mid \<Longrightarrow> \<forall>c\<in>set cs. \<not> creates mid c \<Longrightarrow> \<not> exists_msg (run lib s cs) mid"
  by (induction cs arbitrary: s) (simp_all add: run_Nil run_Cons transact_absent)

lemma run_done:
  "exists_msg s mid \<Longrightarrow> isDecrypted (encryptedMessages s mid) \<Longrightarrow>
     encryptedMessages (run lib s cs) mid = encryptedMessages s mid"
proof (induction cs arbitrary: s)
  case Nil
  then show ?case by (simp add: run_Nil)
next
  case (Cons c cs)
  have same: "encryptedMessages (transact lib s c) mid = encryptedMessages s mid"
    using Cons.prems by (rule transact_done)
  with Cons.prems have "exists_msg (transact lib s c) mid"
    and "isDecrypted (encryptedMessages (transact lib s c) mid)"
    by (simp_all add: exists_msg_def)
  then have "encryptedMessages (run lib (transact lib s c) cs) mid =
      encryptedMessages (transact lib s c) mid"
    by (rule Cons.IH)
  with same show ?case by (simp add: run_Cons)
qed

lemma run_no_decrypt:
  "exists_msg s mid \<Longrightarrow> \<forall>c\<in>set cs. \<not> decrypts mid c \<Longrightarrow>
     encryptedMessages (run lib s cs) mid = encryptedMessages s mid"
proof (induction cs arbitrary: s)
  case Nil
  then show ?case by (simp add: run_Nil)
next
  case (Cons c cs)
  have same: "encryptedMessages (transact lib s c) mid = encryptedMessages s mid"
    using Cons.prems by (simp add: transact_no_decrypt)
  with Cons.prems have "exists_msg (transact lib s c) mid"
    by (simp add: exists_msg_def)
  then have "encryptedMessages (run lib (transact lib s c) cs) mid =
      encryptedMessages (transact lib s c) mid"
    using Cons.prems by (intro Cons.IH) simp_all
  with same show ?case by (simp add: run_Cons)
qed

lemma run_messageIds: "set (messageIds s) \<subseteq> set (messageIds (run lib s cs))"
proof (induction cs arbitrary: s)
  case Nil
  then show ?case by (simp add: run_Nil)
next
  case (Cons c cs)
  have "set (messageIds s) \<subseteq> set (messageIds (transact lib s c))"
    by (rule transact_messageIds)
  also have "\<dots> \<subseteq> set (messageIds (run lib (transact lib s c) cs))"
    by (rule Cons.IH)
  finally show ?case by (simp add: run_Cons)
qed

lemma run_handle:
  "alive_through lib s mid cs \<Longrightarrow>
     exists_msg (run lib s cs) mid \<and>
     encryptedContent (encryptedMessages (run lib s cs) mid) =
     encryptedContent (encryptedMessages s mid)"
proof (induction cs arbitrary: s)
  case Nil
  then show ?case by (simp add: run_Nil)
next
  case (Cons c cs)
  then have here: "exists_msg s mid" and rest: "alive_through lib (transact lib s c) mid cs"
    by simp_all
  from rest have next_alive: "exists_msg (transact lib s c) mid"
    by (cases cs) simp_all
  from Cons.IH [OF rest] transact_handle [OF here next_alive]
  show ?case by (simp add: run_Cons)
qed

text \<open>
  A transaction that does not burn an existing record leaves it in existence, with the six
  fields that only \<^verbatim>\<open>sendMessage\<close> writes as they were.
\<close>

lemma transact_unburned:
  "exists_msg s mid \<Longrightarrow> \<not> burned_by lib s mid c \<Longrightarrow>
     exists_msg (transact lib s c) mid \<and>
     encryptedContent (encryptedMessages (transact lib s c) mid) =
       encryptedContent (encryptedMessages s mid) \<and>
     expirationTime (encryptedMessages (transact lib s c) mid) =
       expirationTime (encryptedMessages s mid) \<and>
     isBurnAfterReading (encryptedMessages (transact lib s c) mid) =
       isBurnAfterReading (encryptedMessages s mid) \<and>
     sender (encryptedMessages (transact lib s c) mid) = sender (encryptedMessages s mid) \<and>
     timestamp (encryptedMessages (transact lib s c) mid) =
       timestamp (encryptedMessages s mid) \<and>
     condition (encryptedMessages (transact lib s c) mid) = condition (encryptedMessages s mid)"
  by (cases c)
     (auto simp: burned_by_def transact_def sendMessage_def decryptMessage_def exists_msg_def
           Let_def split: if_splits option.splits sum.splits)

lemma run_unburned:
  "exists_msg s mid \<Longrightarrow> \<not> burned_in lib s mid cs \<Longrightarrow>
     exists_msg (run lib s cs) mid \<and>
     encryptedContent (encryptedMessages (run lib s cs) mid) =
       encryptedContent (encryptedMessages s mid) \<and>
     expirationTime (encryptedMessages (run lib s cs) mid) =
       expirationTime (encryptedMessages s mid) \<and>
     isBurnAfterReading (encryptedMessages (run lib s cs) mid) =
       isBurnAfterReading (encryptedMessages s mid) \<and>
     sender (encryptedMessages (run lib s cs) mid) = sender (encryptedMessages s mid) \<and>
     timestamp (encryptedMessages (run lib s cs) mid) = timestamp (encryptedMessages s mid) \<and>
     condition (encryptedMessages (run lib s cs) mid) = condition (encryptedMessages s mid)"
proof (induction cs arbitrary: s)
  case Nil
  then show ?case by (simp add: run_Nil)
next
  case (Cons c cs)
  then have step: "\<not> burned_by lib s mid c"
    and rest: "\<not> burned_in lib (transact lib s c) mid cs"
    by simp_all
  note one = transact_unburned [OF Cons.prems(1) step]
  then have "exists_msg (transact lib s c) mid"
    by simp
  from Cons.IH [OF this rest] one show ?case
    by (simp add: run_Cons)
qed

subsection \<open>The scenarios, evaluated\<close>

lemma decode_enc_42: "abi_decode_uint32 (enc 42) = Some 42"
  by (rule decode_enc)

lemma sent_m1:
  "transact fake_fhe deployed (send_m1 burn cond) =
     \<lparr>encryptedMessages = (\<lambda>_. zeroMessage)(''m1'' :=
        \<lparr>encryptedContent = 5, expirationTime = 3700, isBurnAfterReading = burn,
         isDecrypted = False, sender = 7, timestamp = 100, condition = cond,
         decryptedContent = 0\<rparr>),
      messageIds = [''m1''],
      grants = [AllowThis 5, PubliclyDecryptable 5]\<rparr>"
  by (simp add: transact_def send_m1_def sendMessage_def deployed_def fake_fhe_def zeroMessage_def)

lemma send_m1_deployed:
  "sendMessage fake_fhe 7 100 ''m1'' 5 [1] 3700 burn cond deployed =
     Inr ([MessageSent ''m1'' 7], transact fake_fhe deployed (send_m1 burn cond))"
  by (simp add: transact_def send_m1_def sendMessage_def deployed_def fake_fhe_def zeroMessage_def)

lemma m1_kept_sent_eq:
  "m1_kept_sent =
     \<lparr>encryptedMessages = (\<lambda>_. zeroMessage)(''m1'' :=
        \<lparr>encryptedContent = 5, expirationTime = 3700, isBurnAfterReading = False,
         isDecrypted = False, sender = 7, timestamp = 100, condition = ''noon'',
         decryptedContent = 0\<rparr>),
      messageIds = [''m1''],
      grants = [AllowThis 5, PubliclyDecryptable 5]\<rparr>"
  unfolding m1_kept_sent_def by (rule sent_m1)

lemma m1_burn_sent_eq:
  "m1_burn_sent =
     \<lparr>encryptedMessages = (\<lambda>_. zeroMessage)(''m1'' :=
        \<lparr>encryptedContent = 5, expirationTime = 3700, isBurnAfterReading = True,
         isDecrypted = False, sender = 7, timestamp = 100, condition = ''noon'',
         decryptedContent = 0\<rparr>),
      messageIds = [''m1''],
      grants = [AllowThis 5, PubliclyDecryptable 5]\<rparr>"
  unfolding m1_burn_sent_def by (rule sent_m1)

lemma m1_blank_sent_eq:
  "m1_blank_sent =
     \<lparr>encryptedMessages = (\<lambda>_. zeroMessage)(''m1'' :=
        \<lparr>encryptedContent = 5, expirationTime = 3700, isBurnAfterReading = False,
         isDecrypted = False, sender = 7, timestamp = 100, condition = [],
         decryptedContent = 0\<rparr>),
      messageIds = [''m1''],
      grants = [AllowThis 5, PubliclyDecryptable 5]\<rparr>"
  unfolding m1_blank_sent_def by (rule sent_m1)

lemma m1_kept_read_eq:
  "m1_kept_read =
     \<lparr>encryptedMessages = (\<lambda>_. zeroMessage)(''m1'' :=
        \<lparr>encryptedContent = 5, expirationTime = 3700, isBurnAfterReading = False,
         isDecrypted = True, sender = 7, timestamp = 100, condition = ''noon'',
         decryptedContent = 42\<rparr>),
      messageIds = [''m1''],
      grants = [AllowThis 5, PubliclyDecryptable 5]\<rparr>"
  unfolding m1_kept_read_def read_m1_def m1_kept_sent_eq
  by (simp add: transact_def decryptMessage_def decode_enc_42 fake_fhe_def)

lemma m1_burn_read_eq:
  "m1_burn_read =
     \<lparr>encryptedMessages = (\<lambda>_. zeroMessage), messageIds = [''m1''],
      grants = [AllowThis 5, PubliclyDecryptable 5]\<rparr>"
  unfolding m1_burn_read_def read_m1_def m1_burn_sent_eq
  by (simp add: transact_def decryptMessage_def decode_enc_42 fake_fhe_def fun_eq_iff)

lemma m1_burn_resent_eq:
  "m1_burn_resent =
     \<lparr>encryptedMessages = (\<lambda>_. zeroMessage)(''m1'' :=
        \<lparr>encryptedContent = 5, expirationTime = 3700, isBurnAfterReading = True,
         isDecrypted = False, sender = 7, timestamp = 100, condition = ''dusk'',
         decryptedContent = 0\<rparr>),
      messageIds = [''m1'', ''m1''],
      grants = [AllowThis 5, PubliclyDecryptable 5, AllowThis 5, PubliclyDecryptable 5]\<rparr>"
  unfolding m1_burn_resent_def m1_burn_read_eq send_m1_def
  by (simp add: transact_def sendMessage_def fake_fhe_def zeroMessage_def)

lemma read_m1_kept:
  "decryptMessage fake_fhe 110 ''m1'' (enc 42) [1] m1_kept_sent =
     Inr ([MessageDecrypted ''m1'' 42], m1_kept_read)"
  unfolding m1_kept_read_eq m1_kept_sent_eq
  by (simp add: decryptMessage_def decode_enc_42 fake_fhe_def)

lemma read_m1_burn:
  "decryptMessage fake_fhe 110 ''m1'' (enc 42) [1] m1_burn_sent =
     Inr ([MessageBurned ''m1''], m1_burn_read)"
  unfolding m1_burn_read_eq m1_burn_sent_eq
  by (simp add: decryptMessage_def decode_enc_42 fake_fhe_def fun_eq_iff)

section \<open>The claims\<close>

text \<open>
  C1, as stated, does not hold. A burn-after-read message \<^verbatim>\<open>m1\<close> is sent and then
  decrypted with a valid proof: \<^verbatim>\<open>getMessage\<close> reverts with "Message does not exist", but
  \<^verbatim>\<open>getAllMessageIds\<close> still returns \<^verbatim>\<open>m1\<close>, because \<^verbatim>\<open>decryptMessage\<close> deletes the mapping
  slot and never touches the \<^verbatim>\<open>messageIds\<close> array.
\<close>

theorem burned_id_still_listed:
  "sendMessage fake_fhe 7 100 ''m1'' 5 [1] 3700 True ''noon'' deployed =
     Inr ([MessageSent ''m1'' 7], m1_burn_sent) \<and>
   decryptMessage fake_fhe 110 ''m1'' (enc 42) [1] m1_burn_sent =
     Inr ([MessageBurned ''m1''], m1_burn_read) \<and>
   getMessage ''m1'' m1_burn_read = Inl NotFound \<and>
   \<not> (''m1'' \<notin> set (getAllMessageIds m1_burn_read))"
  using send_m1_deployed [of True "''noon''", folded m1_burn_sent_def] read_m1_burn
  by (simp add: m1_burn_read_eq getMessage_def getAllMessageIds_def zeroMessage_def)

text \<open>
  C1, amended: when a burn-after-read record is decrypted, in any state the contract can
  reach from deployment, the call emits \<^verbatim>\<open>MessageBurned\<close>, a following \<^verbatim>\<open>getMessage\<close>
  fails with \<open>NotFound\<close>, and \<^verbatim>\<open>getAllMessageIds\<close> returns the same sequence as before
  the call, which contains the identifier.
\<close>

theorem burn_erases_record_not_id:
  assumes "decryptMessage lib now mid clear prf (run lib deployed cs) = Inr (evs, s')"
    and "isBurnAfterReading (encryptedMessages (run lib deployed cs) mid)"
  shows "evs = [MessageBurned mid] \<and>
         getMessage mid s' = Inl NotFound \<and>
         getAllMessageIds s' = getAllMessageIds (run lib deployed cs) \<and>
         mid \<in> set (getAllMessageIds s')"
proof -
  let ?s = "run lib deployed cs"
  from decryptMessage_Inr(5) [OF assms(1)] assms(2)
  have evs: "evs = [MessageBurned mid]"
    and s': "s' = ?s\<lparr>encryptedMessages := (encryptedMessages ?s)(mid := zeroMessage)\<rparr>"
    by auto
  have "exists_msg ?s mid"
    using assms(1) by (rule decryptMessage_Inr(1))
  then have "mid \<in> set (messageIds ?s)"
    by (rule reachable_listed)
  with evs s' show ?thesis
    by (simp add: getMessage_def getAllMessageIds_def zeroMessage_def)
qed

theorem burn_erases_record_not_id_witness:
  "decryptMessage fake_fhe 110 ''m1'' (enc 42) [1] (run fake_fhe deployed [send_m1 True ''noon'']) =
     Inr ([MessageBurned ''m1''], m1_burn_read) \<and>
   isBurnAfterReading (encryptedMessages (run fake_fhe deployed [send_m1 True ''noon'']) ''m1'') \<and>
   getMessage ''m1'' m1_burn_read = Inl NotFound \<and>
   getAllMessageIds m1_burn_read = [''m1'']"
proof -
  have start: "run fake_fhe deployed [send_m1 True ''noon''] = m1_burn_sent"
    by (simp add: run_def m1_burn_sent_def)
  have dec: "decryptMessage fake_fhe 110 ''m1'' (enc 42) [1]
      (run fake_fhe deployed [send_m1 True ''noon'']) = Inr ([MessageBurned ''m1''], m1_burn_read)"
    by (simp add: start read_m1_burn)
  have burn: "isBurnAfterReading
      (encryptedMessages (run fake_fhe deployed [send_m1 True ''noon'']) ''m1'')"
    by (simp add: start m1_burn_sent_eq)
  have ids: "getAllMessageIds (run fake_fhe deployed [send_m1 True ''noon'']) = [''m1'']"
    by (simp add: start m1_burn_sent_eq getAllMessageIds_def)
  from burn_erases_record_not_id [OF dec burn] dec burn ids show ?thesis
    by simp
qed

text \<open>
  C2, as stated, does not hold for a burned record. After \<^verbatim>\<open>m1\<close> is burned, a second
  \<^verbatim>\<open>sendMessage\<close> with the same identifier is accepted, the record exists again, and a
  \<^verbatim>\<open>decryptMessage\<close> on it does not fail with \<open>NotFound\<close>: it succeeds a second time.
\<close>

theorem burned_id_decrypts_again:
  "decryptMessage fake_fhe 110 ''m1'' (enc 42) [1] m1_burn_sent =
     Inr ([MessageBurned ''m1''], m1_burn_read) \<and>
   \<not> exists_msg m1_burn_read ''m1'' \<and>
   transact fake_fhe m1_burn_read (send_m1 True ''dusk'') = m1_burn_resent \<and>
   exists_msg m1_burn_resent ''m1'' \<and>
   decryptMessage fake_fhe 120 ''m1'' (enc 42) [1] m1_burn_resent =
     Inr ([MessageBurned ''m1''], m1_burn_read\<lparr>messageIds := [''m1'', ''m1''],
       grants := [AllowThis 5, PubliclyDecryptable 5, AllowThis 5, PubliclyDecryptable 5]\<rparr>) \<and>
   decryptMessage fake_fhe 120 ''m1'' (enc 42) [1] m1_burn_resent \<noteq> Inl NotFound"
proof -
  have again: "decryptMessage fake_fhe 120 ''m1'' (enc 42) [1] m1_burn_resent =
     Inr ([MessageBurned ''m1''], m1_burn_read\<lparr>messageIds := [''m1'', ''m1''],
       grants := [AllowThis 5, PubliclyDecryptable 5, AllowThis 5, PubliclyDecryptable 5]\<rparr>)"
    unfolding m1_burn_resent_eq m1_burn_read_eq
    by (simp add: decryptMessage_def decode_enc_42 fake_fhe_def fun_eq_iff)
  have gone: "\<not> exists_msg m1_burn_read ''m1''"
    by (simp add: m1_burn_read_eq exists_msg_def zeroMessage_def)
  have anew: "exists_msg m1_burn_resent ''m1''"
    by (simp add: m1_burn_resent_eq exists_msg_def)
  from again gone anew read_m1_burn show ?thesis
    by (simp add: m1_burn_resent_def)
qed

text \<open>
  C2, amended: once a decrypt call on an identifier succeeds,
  \<^item> if the record is not burn-after-read, it exists with \<open>isDecrypted = True\<close>, and after
    every later sequence of transactions the record is unchanged (so its clear value and
    its existence never change again) and every decrypt call on the identifier fails with
    \<open>AlreadyDecrypted\<close>;
  \<^item> if the record is burn-after-read, then after every later sequence of transactions
    none of which is a \<^verbatim>\<open>sendMessage\<close> for that identifier with a non-empty condition, the
    record is absent and every decrypt call on the identifier fails with \<open>NotFound\<close>.
  And in every state reachable from deployment, no transaction takes the stored
  \<open>isDecrypted\<close> flag of an identifier from true to false.
\<close>

theorem decrypt_at_most_once:
  "(decryptMessage lib now mid clear prf s = Inr (evs, s1) \<longrightarrow>
      (\<not> isBurnAfterReading (encryptedMessages s mid) \<longrightarrow>
         exists_msg s1 mid \<and> isDecrypted (encryptedMessages s1 mid) \<and>
         (\<forall>cs now' clear' prf'.
            encryptedMessages (run lib s1 cs) mid = encryptedMessages s1 mid \<and>
            decryptMessage lib now' mid clear' prf' (run lib s1 cs) = Inl AlreadyDecrypted)) \<and>
      (isBurnAfterReading (encryptedMessages s mid) \<longrightarrow>
         (\<forall>cs now' clear' prf'. (\<forall>c\<in>set cs. \<not> creates mid c) \<longrightarrow>
            \<not> exists_msg (run lib s1 cs) mid \<and>
            decryptMessage lib now' mid clear' prf' (run lib s1 cs) = Inl NotFound))) \<and>
   (\<forall>cs0 c. isDecrypted (encryptedMessages (run lib deployed cs0) mid) \<longrightarrow>
      isDecrypted (encryptedMessages (transact lib (run lib deployed cs0) c) mid))"
proof (intro conjI impI allI)
  assume dec: "decryptMessage lib now mid clear prf s = Inr (evs, s1)"
    and keep: "\<not> isBurnAfterReading (encryptedMessages s mid)"
  have was: "exists_msg s mid"
    using dec by (rule decryptMessage_Inr(1))
  from decryptMessage_Inr(5) [OF dec] keep obtain v where
    s1: "s1 = s\<lparr>encryptedMessages := (encryptedMessages s)(mid :=
            (encryptedMessages s mid)\<lparr>decryptedContent := v, isDecrypted := True\<rparr>)\<rparr>"
    by auto
  from s1 was show ex: "exists_msg s1 mid"
    by (simp add: exists_msg_def)
  from s1 show fl: "isDecrypted (encryptedMessages s1 mid)"
    by simp
  fix cs now' clear' prf'
  show same: "encryptedMessages (run lib s1 cs) mid = encryptedMessages s1 mid"
    using ex fl by (rule run_done)
  with ex fl have "exists_msg (run lib s1 cs) mid"
    and "isDecrypted (encryptedMessages (run lib s1 cs) mid)"
    by (simp_all add: exists_msg_def)
  then show "decryptMessage lib now' mid clear' prf' (run lib s1 cs) = Inl AlreadyDecrypted"
    by (rule decryptMessage_done)
next
  fix cs now' clear' prf'
  assume dec: "decryptMessage lib now mid clear prf s = Inr (evs, s1)"
    and burn: "isBurnAfterReading (encryptedMessages s mid)"
    and quiet: "\<forall>c\<in>set cs. \<not> creates mid c"
  from decryptMessage_Inr(5) [OF dec] burn
  have "s1 = s\<lparr>encryptedMessages := (encryptedMessages s)(mid := zeroMessage)\<rparr>"
    by auto
  then have "\<not> exists_msg s1 mid"
    by (simp add: exists_msg_def zeroMessage_def)
  then show gone: "\<not> exists_msg (run lib s1 cs) mid"
    using quiet by (rule run_absent)
  then show "decryptMessage lib now' mid clear' prf' (run lib s1 cs) = Inl NotFound"
    by (rule decryptMessage_absent)
next
  fix cs0 c
  assume fl: "isDecrypted (encryptedMessages (run lib deployed cs0) mid)"
  then have "exists_msg (run lib deployed cs0) mid"
    by (rule reachable_flag)
  then have "encryptedMessages (transact lib (run lib deployed cs0) c) mid =
      encryptedMessages (run lib deployed cs0) mid"
    using fl by (rule transact_done)
  with fl show "isDecrypted (encryptedMessages (transact lib (run lib deployed cs0) c) mid)"
    by simp
qed

theorem decrypt_at_most_once_witness:
  "decryptMessage fake_fhe 110 ''m1'' (enc 42) [1] m1_kept_sent =
     Inr ([MessageDecrypted ''m1'' 42], m1_kept_read) \<and>
   \<not> isBurnAfterReading (encryptedMessages m1_kept_sent ''m1'') \<and>
   decryptMessage fake_fhe 120 ''m1'' (enc 42) [1]
     (run fake_fhe m1_kept_read [send_m1 True ''dusk'', read_m1 115]) = Inl AlreadyDecrypted \<and>
   decryptedContent (encryptedMessages
     (run fake_fhe m1_kept_read [send_m1 True ''dusk'', read_m1 115]) ''m1'') = 42 \<and>
   decryptMessage fake_fhe 110 ''m1'' (enc 42) [1] m1_burn_sent =
     Inr ([MessageBurned ''m1''], m1_burn_read) \<and>
   isBurnAfterReading (encryptedMessages m1_burn_sent ''m1'') \<and>
   \<not> creates ''m1'' (read_m1 115) \<and> \<not> creates ''m1'' (send_m1 True []) \<and>
   decryptMessage fake_fhe 120 ''m1'' (enc 42) [1]
     (run fake_fhe m1_burn_read [read_m1 115, send_m1 True []]) = Inl NotFound"
proof -
  have keep: "\<not> isBurnAfterReading (encryptedMessages m1_kept_sent ''m1'')"
    by (simp add: m1_kept_sent_eq)
  have burn: "isBurnAfterReading (encryptedMessages m1_burn_sent ''m1'')"
    by (simp add: m1_burn_sent_eq)
  have quiet: "\<forall>c\<in>set [read_m1 115, send_m1 True []]. \<not> creates ''m1'' c"
    by (simp add: read_m1_def send_m1_def)
  have val: "decryptedContent (encryptedMessages m1_kept_read ''m1'') = 42"
    by (simp add: m1_kept_read_eq)
  from decrypt_at_most_once [of fake_fhe 110 "''m1''" "enc 42" "[1]" m1_kept_sent
      "[MessageDecrypted ''m1'' 42]" m1_kept_read] read_m1_kept keep
  have a: "decryptMessage fake_fhe 120 ''m1'' (enc 42) [1]
      (run fake_fhe m1_kept_read [send_m1 True ''dusk'', read_m1 115]) = Inl AlreadyDecrypted"
    and b: "encryptedMessages (run fake_fhe m1_kept_read [send_m1 True ''dusk'', read_m1 115]) ''m1''
      = encryptedMessages m1_kept_read ''m1''"
    by blast+
  from decrypt_at_most_once [of fake_fhe 110 "''m1''" "enc 42" "[1]" m1_burn_sent
      "[MessageBurned ''m1'']" m1_burn_read] read_m1_burn burn quiet
  have c: "decryptMessage fake_fhe 120 ''m1'' (enc 42) [1]
      (run fake_fhe m1_burn_read [read_m1 115, send_m1 True []]) = Inl NotFound"
    by blast
  from a b c keep burn val read_m1_kept read_m1_burn show ?thesis
    by (simp add: read_m1_def send_m1_def)
qed

text \<open>
  C3: the four failures of \<^verbatim>\<open>decryptMessage\<close> are decided in the order existence,
  decrypted flag, expiration, proof. The call fails with \<open>NotFound\<close> exactly when the
  record does not exist, whatever the flag, the time and the proof are; with
  \<open>AlreadyDecrypted\<close> exactly when it exists and is decrypted, whatever the time and the
  proof are; with \<open>Expired\<close> exactly when it exists, is not decrypted and the time is past
  its expiration, whatever the proof is; and with \<open>InvalidProof\<close> exactly when it exists,
  is not decrypted, is not expired, and the signatures do not verify. The result is one
  value, so no two of them happen together.
\<close>

theorem decrypt_failure_order:
  "((decryptMessage lib now mid clear prf s = Inl NotFound) = (\<not> exists_msg s mid)) \<and>
   ((decryptMessage lib now mid clear prf s = Inl AlreadyDecrypted) =
      (exists_msg s mid \<and> isDecrypted (encryptedMessages s mid))) \<and>
   ((decryptMessage lib now mid clear prf s = Inl Expired) =
      (exists_msg s mid \<and> \<not> isDecrypted (encryptedMessages s mid) \<and>
       expirationTime (encryptedMessages s mid) < now)) \<and>
   ((decryptMessage lib now mid clear prf s = Inl InvalidProof) =
      (exists_msg s mid \<and> \<not> isDecrypted (encryptedMessages s mid) \<and>
       now \<le> expirationTime (encryptedMessages s mid) \<and>
       \<not> checkSignatures lib [toBytes32 lib (encryptedContent (encryptedMessages s mid))]
           clear prf))"
  by (auto simp: decryptMessage_def exists_msg_def Let_def split: option.splits)

theorem decrypt_failure_order_witness:
  "decryptMessage fake_fhe 9999 ''m2'' (enc 42) [] m1_kept_read = Inl NotFound \<and>
   decryptMessage fake_fhe 9999 ''m1'' (enc 42) [] m1_kept_read = Inl AlreadyDecrypted \<and>
   decryptMessage fake_fhe 9999 ''m1'' (enc 42) [] m1_kept_sent = Inl Expired \<and>
   decryptMessage fake_fhe 110 ''m1'' (enc 42) [] m1_kept_sent = Inl InvalidProof"
proof -
  have "\<not> exists_msg m1_kept_read ''m2''"
    by (simp add: m1_kept_read_eq exists_msg_def zeroMessage_def)
  moreover have "exists_msg m1_kept_read ''m1'' \<and> isDecrypted (encryptedMessages m1_kept_read ''m1'')"
    by (simp add: m1_kept_read_eq exists_msg_def)
  moreover have "exists_msg m1_kept_sent ''m1'' \<and> \<not> isDecrypted (encryptedMessages m1_kept_sent ''m1'')
      \<and> expirationTime (encryptedMessages m1_kept_sent ''m1'') < 9999
      \<and> 110 \<le> expirationTime (encryptedMessages m1_kept_sent ''m1'')"
    by (simp add: m1_kept_sent_eq exists_msg_def)
  moreover have "\<not> checkSignatures fake_fhe
      [toBytes32 fake_fhe (encryptedContent (encryptedMessages m1_kept_sent ''m1''))] (enc 42) []"
    by (simp add: fake_fhe_def)
  ultimately show ?thesis
    using decrypt_failure_order [of fake_fhe 9999 "''m2''" "enc 42" "[]" m1_kept_read]
      decrypt_failure_order [of fake_fhe 9999 "''m1''" "enc 42" "[]" m1_kept_read]
      decrypt_failure_order [of fake_fhe 9999 "''m1''" "enc 42" "[]" m1_kept_sent]
      decrypt_failure_order [of fake_fhe 110 "''m1''" "enc 42" "[]" m1_kept_sent]
    by blast
qed

text \<open>
  C4: for a record that exists and is not decrypted, a \<^verbatim>\<open>decryptMessage\<close> at the very
  second of its expiration time is not rejected as \<open>Expired\<close>: the call goes on to the
  signature check, fails with \<open>InvalidProof\<close> exactly when the signatures do not verify,
  and succeeds when they do and the clear value decodes. A \<^verbatim>\<open>decryptMessage\<close> one second
  later, or at any later time, fails with \<open>Expired\<close> for every library and every proof.
\<close>

theorem expiration_boundary:
  assumes "exists_msg s mid" and "\<not> isDecrypted (encryptedMessages s mid)"
  shows "(now = expirationTime (encryptedMessages s mid) \<longrightarrow>
            decryptMessage lib now mid clear prf s \<noteq> Inl Expired \<and>
            ((decryptMessage lib now mid clear prf s = Inl InvalidProof) =
               (\<not> checkSignatures lib
                    [toBytes32 lib (encryptedContent (encryptedMessages s mid))] clear prf)) \<and>
            (checkSignatures lib
                [toBytes32 lib (encryptedContent (encryptedMessages s mid))] clear prf \<and>
             abi_decode_uint32 clear \<noteq> None \<longrightarrow>
               (\<exists>evs s'. decryptMessage lib now mid clear prf s = Inr (evs, s')))) \<and>
         (unat (expirationTime (encryptedMessages s mid)) + 1 \<le> unat now \<longrightarrow>
            decryptMessage lib now mid clear prf s = Inl Expired)"
proof (intro conjI impI)
  assume late: "unat (expirationTime (encryptedMessages s mid)) + 1 \<le> unat now"
  then have "\<not> now \<le> expirationTime (encryptedMessages s mid)"
    by (simp add: word_le_nat_alt)
  with assms show "decryptMessage lib now mid clear prf s = Inl Expired"
    by (simp add: decryptMessage_def exists_msg_def)
next
  assume "now = expirationTime (encryptedMessages s mid)"
  with assms show "decryptMessage lib now mid clear prf s \<noteq> Inl Expired"
    by (simp add: decryptMessage_def exists_msg_def Let_def split: option.splits)
next
  assume "now = expirationTime (encryptedMessages s mid)"
  with assms show "(decryptMessage lib now mid clear prf s = Inl InvalidProof) =
      (\<not> checkSignatures lib
           [toBytes32 lib (encryptedContent (encryptedMessages s mid))] clear prf)"
    by (simp add: decryptMessage_def exists_msg_def Let_def split: option.splits)
next
  assume "now = expirationTime (encryptedMessages s mid)"
    and "checkSignatures lib
           [toBytes32 lib (encryptedContent (encryptedMessages s mid))] clear prf \<and>
         abi_decode_uint32 clear \<noteq> None"
  with assms show "\<exists>evs s'. decryptMessage lib now mid clear prf s = Inr (evs, s')"
    by (auto simp: decryptMessage_def exists_msg_def Let_def)
qed

theorem expiration_boundary_witness:
  "exists_msg m1_kept_sent ''m1'' \<and> \<not> isDecrypted (encryptedMessages m1_kept_sent ''m1'') \<and>
   expirationTime (encryptedMessages m1_kept_sent ''m1'') = 3700 \<and>
   decryptMessage fake_fhe 3700 ''m1'' (enc 42) [1] m1_kept_sent \<noteq> Inl Expired \<and>
   decryptMessage fake_fhe 3700 ''m1'' (enc 42) [] m1_kept_sent = Inl InvalidProof \<and>
   decryptMessage fake_fhe 3701 ''m1'' (enc 42) [1] m1_kept_sent = Inl Expired \<and>
   decryptMessage fake_fhe 3701 ''m1'' (enc 42) [] m1_kept_sent = Inl Expired"
proof -
  have ex: "exists_msg m1_kept_sent ''m1''"
    by (simp add: m1_kept_sent_eq exists_msg_def)
  have fresh: "\<not> isDecrypted (encryptedMessages m1_kept_sent ''m1'')"
    by (simp add: m1_kept_sent_eq)
  have at: "expirationTime (encryptedMessages m1_kept_sent ''m1'') = 3700"
    by (simp add: m1_kept_sent_eq)
  have "(3700 :: uint256) = expirationTime (encryptedMessages m1_kept_sent ''m1'')"
    by (simp add: at)
  moreover have "unat (expirationTime (encryptedMessages m1_kept_sent ''m1'')) + 1 \<le>
      unat (3701 :: uint256)"
    by (simp add: at)
  moreover have "\<not> checkSignatures fake_fhe
      [toBytes32 fake_fhe (encryptedContent (encryptedMessages m1_kept_sent ''m1''))] (enc 42) []"
    by (simp add: fake_fhe_def)
  ultimately show ?thesis
    using ex fresh at
      expiration_boundary [OF ex fresh, of 3700 fake_fhe "enc 42" "[1]"]
      expiration_boundary [OF ex fresh, of 3700 fake_fhe "enc 42" "[]"]
      expiration_boundary [OF ex fresh, of 3701 fake_fhe "enc 42" "[1]"]
      expiration_boundary [OF ex fresh, of 3701 fake_fhe "enc 42" "[]"]
    by blast
qed

text \<open>
  C5, as stated, does not hold. A burn-after-read message \<^verbatim>\<open>m1\<close> is created with the
  condition \<^verbatim>\<open>noon\<close> and decrypted, which deletes the record. A second \<^verbatim>\<open>sendMessage\<close> with
  the same identifier then does not fail with \<open>DuplicateId\<close>: it succeeds, and the stored
  record holds the condition of the second call.
\<close>

theorem burned_id_not_duplicate:
  "sendMessage fake_fhe 7 100 ''m1'' 5 [1] 3700 True ''noon'' deployed =
     Inr ([MessageSent ''m1'' 7], m1_burn_sent) \<and>
   condition (encryptedMessages m1_burn_sent ''m1'') = ''noon'' \<and>
   decryptMessage fake_fhe 110 ''m1'' (enc 42) [1] m1_burn_sent =
     Inr ([MessageBurned ''m1''], m1_burn_read) \<and>
   sendMessage fake_fhe 7 100 ''m1'' 5 [1] 3700 True ''dusk'' m1_burn_read =
     Inr ([MessageSent ''m1'' 7], m1_burn_resent) \<and>
   sendMessage fake_fhe 7 100 ''m1'' 5 [1] 3700 True ''dusk'' m1_burn_read \<noteq> Inl DuplicateId \<and>
   condition (encryptedMessages m1_burn_resent ''m1'') = ''dusk'' \<and>
   condition (encryptedMessages m1_burn_resent ''m1'') \<noteq> ''noon''"
proof -
  have first: "sendMessage fake_fhe 7 100 ''m1'' 5 [1] 3700 True ''noon'' deployed =
      Inr ([MessageSent ''m1'' 7], m1_burn_sent)"
    unfolding m1_burn_sent_def by (rule send_m1_deployed)
  have again: "sendMessage fake_fhe 7 100 ''m1'' 5 [1] 3700 True ''dusk'' m1_burn_read =
      Inr ([MessageSent ''m1'' 7], m1_burn_resent)"
    unfolding m1_burn_resent_eq m1_burn_read_eq
    by (simp add: sendMessage_def fake_fhe_def zeroMessage_def)
  have conds: "condition (encryptedMessages m1_burn_sent ''m1'') = ''noon''"
    "condition (encryptedMessages m1_burn_resent ''m1'') = ''dusk''"
    by (simp_all add: m1_burn_sent_eq m1_burn_resent_eq)
  from first read_m1_burn again conds show ?thesis
    by simp
qed

text \<open>
  C5, amended: after a \<^verbatim>\<open>sendMessage\<close> for an identifier has succeeded with a condition
  that is not empty, and after any further transactions none of which burns that record
  (decrypts on the identifier that fail, and a decrypt that succeeds on a record kept after
  reading, are allowed), a \<^verbatim>\<open>sendMessage\<close> with the same identifier fails with
  \<open>DuplicateId\<close> whatever its other arguments are and storage is left as it was. The stored
  record holds the ciphertext handle, expiration time, burn flag, sender, timestamp and
  condition of the first call; when no \<^verbatim>\<open>decryptMessage\<close> for the identifier came in between,
  it holds exactly the fields the first call wrote.
\<close>

theorem duplicate_id_rejected:
  assumes "sendMessage lib who now mid ext prf expT burn cond s0 = Inr (evs, s1)"
    and "cond \<noteq> []"
    and "\<not> burned_in lib s1 mid cs"
  shows "sendMessage lib who' now' mid ext' prf' expT' burn' cond' (run lib s1 cs) =
           Inl DuplicateId \<and>
         transact lib (run lib s1 cs) (SendMessage who' now' mid ext' prf' expT' burn' cond') =
           run lib s1 cs \<and>
         (\<exists>h. fromExternal lib who ext prf = Some h \<and>
              encryptedContent (encryptedMessages (run lib s1 cs) mid) = h \<and>
              expirationTime (encryptedMessages (run lib s1 cs) mid) = expT \<and>
              isBurnAfterReading (encryptedMessages (run lib s1 cs) mid) = burn \<and>
              sender (encryptedMessages (run lib s1 cs) mid) = who \<and>
              timestamp (encryptedMessages (run lib s1 cs) mid) = now \<and>
              condition (encryptedMessages (run lib s1 cs) mid) = cond \<and>
              ((\<forall>c\<in>set cs. \<not> decrypts mid c) \<longrightarrow>
                 encryptedMessages (run lib s1 cs) mid =
                   \<lparr>encryptedContent = h, expirationTime = expT, isBurnAfterReading = burn,
                    isDecrypted = False, sender = who, timestamp = now, condition = cond,
                    decryptedContent = 0\<rparr>))"
proof -
  from sendMessage_Inr(2) [OF assms(1)] obtain h where
    h: "fromExternal lib who ext prf = Some h"
    and first: "encryptedMessages s1 mid =
      \<lparr>encryptedContent = h, expirationTime = expT, isBurnAfterReading = burn,
       isDecrypted = False, sender = who, timestamp = now, condition = cond,
       decryptedContent = 0\<rparr>"
    by auto
  from first assms(2) have ex: "exists_msg s1 mid"
    by (simp add: exists_msg_def)
  note kept = run_unburned [OF ex assms(3)]
  then have "exists_msg (run lib s1 cs) mid"
    by simp
  then have dup: "sendMessage lib who' now' mid ext' prf' expT' burn' cond' (run lib s1 cs) =
      Inl DuplicateId"
    by (rule sendMessage_exists)
  then have same: "transact lib (run lib s1 cs)
      (SendMessage who' now' mid ext' prf' expT' burn' cond') = run lib s1 cs"
    by (simp add: transact_def)
  have whole: "(\<forall>c\<in>set cs. \<not> decrypts mid c) \<longrightarrow>
      encryptedMessages (run lib s1 cs) mid =
        \<lparr>encryptedContent = h, expirationTime = expT, isBurnAfterReading = burn,
         isDecrypted = False, sender = who, timestamp = now, condition = cond,
         decryptedContent = 0\<rparr>"
    using run_no_decrypt [OF ex, of cs lib] first by simp
  from dup same h kept first whole show ?thesis
    by simp
qed

theorem duplicate_id_rejected_witness:
  "sendMessage fake_fhe 7 100 ''m1'' 5 [1] 3700 False ''noon'' deployed =
     Inr ([MessageSent ''m1'' 7], m1_kept_sent) \<and>
   ''noon'' \<noteq> [] \<and>
   \<not> burned_in fake_fhe m1_kept_sent ''m1'' [send_m1 True ''dusk'', read_m1 110] \<and>
   sendMessage fake_fhe 9 200 ''m1'' 6 [2] 9999 True ''dusk''
     (run fake_fhe m1_kept_sent [send_m1 True ''dusk'', read_m1 110]) = Inl DuplicateId \<and>
   condition (encryptedMessages
     (run fake_fhe m1_kept_sent [send_m1 True ''dusk'', read_m1 110]) ''m1'') = ''noon'' \<and>
   sendMessage fake_fhe 7 100 ''m1'' 5 [1] 3700 True ''noon'' deployed =
     Inr ([MessageSent ''m1'' 7], m1_burn_sent) \<and>
   \<not> burned_in fake_fhe m1_burn_sent ''m1'' [DecryptMessage 110 ''m1'' (enc 42) []] \<and>
   sendMessage fake_fhe 9 200 ''m1'' 6 [2] 9999 True ''dusk''
     (run fake_fhe m1_burn_sent [DecryptMessage 110 ''m1'' (enc 42) []]) = Inl DuplicateId \<and>
   encryptedMessages (run fake_fhe m1_burn_sent [send_m1 False ''dusk'']) ''m1'' =
     \<lparr>encryptedContent = 5, expirationTime = 3700, isBurnAfterReading = True,
      isDecrypted = False, sender = 7, timestamp = 100, condition = ''noon'',
      decryptedContent = 0\<rparr>"
proof -
  have first: "sendMessage fake_fhe 7 100 ''m1'' 5 [1] 3700 False ''noon'' deployed =
      Inr ([MessageSent ''m1'' 7], m1_kept_sent)"
    unfolding m1_kept_sent_def by (rule send_m1_deployed)
  have first': "sendMessage fake_fhe 7 100 ''m1'' 5 [1] 3700 True ''noon'' deployed =
      Inr ([MessageSent ''m1'' 7], m1_burn_sent)"
    unfolding m1_burn_sent_def by (rule send_m1_deployed)
  have filled: "''noon'' \<noteq> []"
    by simp
  have ex: "exists_msg m1_kept_sent ''m1''"
    by (simp add: m1_kept_sent_eq exists_msg_def)
  then have dup: "exec fake_fhe (send_m1 True ''dusk'') m1_kept_sent = Inl DuplicateId"
    by (simp add: send_m1_def sendMessage_exists)
  then have stay: "transact fake_fhe m1_kept_sent (send_m1 True ''dusk'') = m1_kept_sent"
    by (simp add: transact_def)
  have kept: "\<not> burned_in fake_fhe m1_kept_sent ''m1'' [send_m1 True ''dusk'', read_m1 110]"
    using dup read_m1_kept by (simp add: burned_by_def stay read_m1_def)
  have bad: "decryptMessage fake_fhe 110 ''m1'' (enc 42) [] m1_burn_sent = Inl InvalidProof"
    unfolding m1_burn_sent_eq by (simp add: decryptMessage_def fake_fhe_def)
  then have failed: "\<not> burned_in fake_fhe m1_burn_sent ''m1'' [DecryptMessage 110 ''m1'' (enc 42) []]"
    by (simp add: burned_by_def)
  have ex': "exists_msg m1_burn_sent ''m1''"
    by (simp add: m1_burn_sent_eq exists_msg_def)
  then have dup': "exec fake_fhe (send_m1 False ''dusk'') m1_burn_sent = Inl DuplicateId"
    by (simp add: send_m1_def sendMessage_exists)
  then have quiet: "\<not> burned_in fake_fhe m1_burn_sent ''m1'' [send_m1 False ''dusk'']"
    by (simp add: burned_by_def)
  have none: "\<forall>c\<in>set [send_m1 False ''dusk'']. \<not> decrypts ''m1'' c"
    by (simp add: send_m1_def)
  have h: "fromExternal fake_fhe 7 5 [1] = Some 5"
    by (simp add: fake_fhe_def)
  from duplicate_id_rejected [OF first filled kept, of 9 200 6 "[2]" 9999 True "''dusk''"]
  have a: "sendMessage fake_fhe 9 200 ''m1'' 6 [2] 9999 True ''dusk''
      (run fake_fhe m1_kept_sent [send_m1 True ''dusk'', read_m1 110]) = Inl DuplicateId"
    and b: "condition (encryptedMessages
      (run fake_fhe m1_kept_sent [send_m1 True ''dusk'', read_m1 110]) ''m1'') = ''noon''"
    by blast+
  from duplicate_id_rejected [OF first' filled failed, of 9 200 6 "[2]" 9999 True "''dusk''"]
  have c: "sendMessage fake_fhe 9 200 ''m1'' 6 [2] 9999 True ''dusk''
      (run fake_fhe m1_burn_sent [DecryptMessage 110 ''m1'' (enc 42) []]) = Inl DuplicateId"
    by blast
  from duplicate_id_rejected [OF first' filled quiet, of 9 200 6 "[2]" 9999 True "''dusk''"]
    none h
  have d: "encryptedMessages (run fake_fhe m1_burn_sent [send_m1 False ''dusk'']) ''m1'' =
      \<lparr>encryptedContent = 5, expirationTime = 3700, isBurnAfterReading = True,
       isDecrypted = False, sender = 7, timestamp = 100, condition = ''noon'',
       decryptedContent = 0\<rparr>"
    by (metis option.inject)
  from first first' filled kept failed a b c d show ?thesis
    by simp
qed

text \<open>
  C6: for a record that is not burn-after-read, a \<^verbatim>\<open>decryptMessage\<close> on an existing,
  undecrypted, unexpired record with signatures that verify and a clear value that decodes
  to \<open>v\<close> succeeds and emits \<^verbatim>\<open>MessageDecrypted(id, v)\<close>; and whenever the call succeeds, the
  event carries the decoded value, the record's flag is true and its clear value is the
  decoded value, and a following \<^verbatim>\<open>getMessage\<close> returns the record's fields with
  \<open>isDecrypted = True\<close> and that clear value.
\<close>

theorem decrypt_stores_clear_value:
  assumes "\<not> isBurnAfterReading (encryptedMessages s mid)"
  shows "(exists_msg s mid \<and> \<not> isDecrypted (encryptedMessages s mid) \<and>
          now \<le> expirationTime (encryptedMessages s mid) \<and>
          checkSignatures lib
            [toBytes32 lib (encryptedContent (encryptedMessages s mid))] clear prf \<and>
          abi_decode_uint32 clear = Some v \<longrightarrow>
            (\<exists>s'. decryptMessage lib now mid clear prf s = Inr ([MessageDecrypted mid v], s'))) \<and>
         (decryptMessage lib now mid clear prf s = Inr (evs, s') \<longrightarrow>
            (\<exists>w. abi_decode_uint32 clear = Some w \<and>
                 evs = [MessageDecrypted mid w] \<and>
                 isDecrypted (encryptedMessages s' mid) \<and>
                 decryptedContent (encryptedMessages s' mid) = w \<and>
                 getMessage mid s' =
                   Inr (expirationTime (encryptedMessages s mid), False, True,
                        sender (encryptedMessages s mid), timestamp (encryptedMessages s mid),
                        condition (encryptedMessages s mid), w)))"
proof (intro conjI impI)
  assume "exists_msg s mid \<and> \<not> isDecrypted (encryptedMessages s mid) \<and>
          now \<le> expirationTime (encryptedMessages s mid) \<and>
          checkSignatures lib
            [toBytes32 lib (encryptedContent (encryptedMessages s mid))] clear prf \<and>
          abi_decode_uint32 clear = Some v"
  with assms show "\<exists>s'. decryptMessage lib now mid clear prf s =
      Inr ([MessageDecrypted mid v], s')"
    by (simp add: decryptMessage_def exists_msg_def Let_def)
next
  assume dec: "decryptMessage lib now mid clear prf s = Inr (evs, s')"
  have ex: "exists_msg s mid"
    using dec by (rule decryptMessage_Inr(1))
  from decryptMessage_Inr(5) [OF dec] assms obtain w where
    w: "abi_decode_uint32 clear = Some w" and evs: "evs = [MessageDecrypted mid w]"
    and s': "s' = s\<lparr>encryptedMessages := (encryptedMessages s)(mid :=
            (encryptedMessages s mid)\<lparr>decryptedContent := w, isDecrypted := True\<rparr>)\<rparr>"
    by auto
  from ex s' assms have "getMessage mid s' =
      Inr (expirationTime (encryptedMessages s mid), False, True,
           sender (encryptedMessages s mid), timestamp (encryptedMessages s mid),
           condition (encryptedMessages s mid), w)"
    by (simp add: getMessage_def exists_msg_def)
  with w evs s' show "\<exists>w. abi_decode_uint32 clear = Some w \<and>
      evs = [MessageDecrypted mid w] \<and>
      isDecrypted (encryptedMessages s' mid) \<and>
      decryptedContent (encryptedMessages s' mid) = w \<and>
      getMessage mid s' =
        Inr (expirationTime (encryptedMessages s mid), False, True,
             sender (encryptedMessages s mid), timestamp (encryptedMessages s mid),
             condition (encryptedMessages s mid), w)"
    by simp
qed

theorem decrypt_stores_clear_value_witness:
  "\<not> isBurnAfterReading (encryptedMessages m1_kept_sent ''m1'') \<and>
   decryptMessage fake_fhe 110 ''m1'' (enc 42) [1] m1_kept_sent =
     Inr ([MessageDecrypted ''m1'' 42], m1_kept_read) \<and>
   abi_decode_uint32 (enc 42) = Some 42 \<and>
   getMessage ''m1'' m1_kept_read = Inr (3700, False, True, 7, 100, ''noon'', 42)"
proof -
  have keep: "\<not> isBurnAfterReading (encryptedMessages m1_kept_sent ''m1'')"
    by (simp add: m1_kept_sent_eq)
  have fields: "expirationTime (encryptedMessages m1_kept_sent ''m1'') = 3700"
    "sender (encryptedMessages m1_kept_sent ''m1'') = 7"
    "timestamp (encryptedMessages m1_kept_sent ''m1'') = 100"
    "condition (encryptedMessages m1_kept_sent ''m1'') = ''noon''"
    by (simp_all add: m1_kept_sent_eq)
  from decrypt_stores_clear_value [OF keep, of 110 fake_fhe "enc 42" "[1]" 42
      "[MessageDecrypted ''m1'' 42]" m1_kept_read] read_m1_kept
  have "getMessage ''m1'' m1_kept_read = Inr (3700, False, True, 7, 100, ''noon'', 42)"
    by (auto simp: fields decode_enc_42)
  with keep read_m1_kept decode_enc_42 show ?thesis
    by simp
qed

text \<open>
  C7: the ciphertext handle of a record is never altered while the record exists. Over any
  sequence of transactions through which the record of an identifier stays in existence,
  the stored \<open>encryptedContent\<close> is the one it started with, \<^verbatim>\<open>getEncryptedContent\<close> returns
  it, and a \<^verbatim>\<open>decryptMessage\<close> afterwards succeeds only if the signatures verify for that
  same handle. When the starting state is the result of the \<^verbatim>\<open>sendMessage\<close> that created
  the record, that handle is the one \<^verbatim>\<open>FHE.fromExternal\<close> returned at creation.
\<close>

theorem ciphertext_handle_fixed:
  assumes "alive_through lib s mid cs"
  shows "encryptedContent (encryptedMessages (run lib s cs) mid) =
           encryptedContent (encryptedMessages s mid) \<and>
         getEncryptedContent mid (run lib s cs) =
           Inr (encryptedContent (encryptedMessages s mid)) \<and>
         (\<forall>now clear sig evs s'.
            decryptMessage lib now mid clear sig (run lib s cs) = Inr (evs, s') \<longrightarrow>
              checkSignatures lib
                [toBytes32 lib (encryptedContent (encryptedMessages s mid))] clear sig) \<and>
         (\<forall>who now ext inp expT burn cond s0 evs.
            sendMessage lib who now mid ext inp expT burn cond s0 = Inr (evs, s) \<longrightarrow>
              fromExternal lib who ext inp = Some (encryptedContent (encryptedMessages s mid)))"
proof (intro conjI allI impI)
  from run_handle [OF assms]
  have ex: "exists_msg (run lib s cs) mid"
    and same: "encryptedContent (encryptedMessages (run lib s cs) mid) =
      encryptedContent (encryptedMessages s mid)"
    by simp_all
  show "encryptedContent (encryptedMessages (run lib s cs) mid) =
      encryptedContent (encryptedMessages s mid)"
    by (rule same)
  from ex same show "getEncryptedContent mid (run lib s cs) =
      Inr (encryptedContent (encryptedMessages s mid))"
    by (simp add: getEncryptedContent_def exists_msg_def)
  fix now clear sig evs s'
  assume "decryptMessage lib now mid clear sig (run lib s cs) = Inr (evs, s')"
  then have "checkSignatures lib
      [toBytes32 lib (encryptedContent (encryptedMessages (run lib s cs) mid))] clear sig"
    by (rule decryptMessage_Inr(4))
  with same show "checkSignatures lib
      [toBytes32 lib (encryptedContent (encryptedMessages s mid))] clear sig"
    by simp
next
  fix who now ext inp expT burn cond s0 evs
  assume "sendMessage lib who now mid ext inp expT burn cond s0 = Inr (evs, s)"
  from sendMessage_Inr(2) [OF this]
  show "fromExternal lib who ext inp = Some (encryptedContent (encryptedMessages s mid))"
    by auto
qed

theorem ciphertext_handle_fixed_witness:
  "alive_through fake_fhe m1_kept_sent ''m1'' [send_m1 True ''dusk'', read_m1 110] \<and>
   sendMessage fake_fhe 7 100 ''m1'' 5 [1] 3700 False ''noon'' deployed =
     Inr ([MessageSent ''m1'' 7], m1_kept_sent) \<and>
   fromExternal fake_fhe 7 5 [1] = Some 5 \<and>
   getEncryptedContent ''m1''
     (run fake_fhe m1_kept_sent [send_m1 True ''dusk'', read_m1 110]) = Inr 5"
proof -
  have first: "sendMessage fake_fhe 7 100 ''m1'' 5 [1] 3700 False ''noon'' deployed =
      Inr ([MessageSent ''m1'' 7], m1_kept_sent)"
    unfolding m1_kept_sent_def by (rule send_m1_deployed)
  have ex: "exists_msg m1_kept_sent ''m1''"
    by (simp add: m1_kept_sent_eq exists_msg_def)
  then have dup: "transact fake_fhe m1_kept_sent (send_m1 True ''dusk'') = m1_kept_sent"
    by (simp add: transact_def send_m1_def sendMessage_exists)
  have ex2: "exists_msg m1_kept_read ''m1''"
    by (simp add: m1_kept_read_eq exists_msg_def)
  have alive: "alive_through fake_fhe m1_kept_sent ''m1'' [send_m1 True ''dusk'', read_m1 110]"
    using ex ex2 by (simp add: dup m1_kept_read_def [symmetric])
  have h: "fromExternal fake_fhe 7 5 [1] = Some 5"
    by (simp add: fake_fhe_def)
  from ciphertext_handle_fixed [OF alive] first h
  have "getEncryptedContent ''m1''
      (run fake_fhe m1_kept_sent [send_m1 True ''dusk'', read_m1 110]) = Inr 5"
    by (metis option.inject)
  with alive first h show ?thesis
    by simp
qed

text \<open>
  C8: a \<^verbatim>\<open>decryptMessage\<close> that fails, with any error, leaves storage exactly as it was.
  In particular, when it fails because an existing, undecrypted record has expired, the
  error is \<open>Expired\<close>, the record still exists with \<open>isDecrypted = False\<close>, and
  \<^verbatim>\<open>getMessage\<close> returns what it returned before the call.
\<close>

theorem failed_decrypt_changes_nothing:
  assumes "decryptMessage lib now mid clear prf s = Inl e"
  shows "transact lib s (DecryptMessage now mid clear prf) = s \<and>
         (exists_msg s mid \<and> \<not> isDecrypted (encryptedMessages s mid) \<and>
          expirationTime (encryptedMessages s mid) < now \<longrightarrow>
            e = Expired \<and>
            exists_msg (transact lib s (DecryptMessage now mid clear prf)) mid \<and>
            \<not> isDecrypted
                (encryptedMessages (transact lib s (DecryptMessage now mid clear prf)) mid) \<and>
            getMessage mid (transact lib s (DecryptMessage now mid clear prf)) =
              getMessage mid s)"
proof (intro conjI impI)
  show same: "transact lib s (DecryptMessage now mid clear prf) = s"
    using assms by (simp add: transact_def)
  assume late: "exists_msg s mid \<and> \<not> isDecrypted (encryptedMessages s mid) \<and>
      expirationTime (encryptedMessages s mid) < now"
  then have "decryptMessage lib now mid clear prf s = Inl Expired"
    by (simp add: decryptMessage_def exists_msg_def not_le)
  with assms show "e = Expired"
    by simp
  from late same show "exists_msg (transact lib s (DecryptMessage now mid clear prf)) mid"
    by simp
  from late same show "\<not> isDecrypted
      (encryptedMessages (transact lib s (DecryptMessage now mid clear prf)) mid)"
    by simp
  from same show "getMessage mid (transact lib s (DecryptMessage now mid clear prf)) =
      getMessage mid s"
    by simp
qed

theorem failed_decrypt_changes_nothing_witness:
  "decryptMessage fake_fhe 3701 ''m1'' (enc 42) [1] m1_kept_sent = Inl Expired \<and>
   transact fake_fhe m1_kept_sent (DecryptMessage 3701 ''m1'' (enc 42) [1]) = m1_kept_sent \<and>
   getMessage ''m1'' (transact fake_fhe m1_kept_sent (DecryptMessage 3701 ''m1'' (enc 42) [1])) =
     Inr (3700, False, False, 7, 100, ''noon'', 0)"
proof -
  have late: "decryptMessage fake_fhe 3701 ''m1'' (enc 42) [1] m1_kept_sent = Inl Expired"
    by (simp add: m1_kept_sent_eq decryptMessage_def)
  have before: "getMessage ''m1'' m1_kept_sent = Inr (3700, False, False, 7, 100, ''noon'', 0)"
    by (simp add: m1_kept_sent_eq getMessage_def)
  from failed_decrypt_changes_nothing [OF late] late before show ?thesis
    by simp
qed

text \<open>
  C9 fails on the code: \<^verbatim>\<open>sendMessage\<close> never looks at its \<^verbatim>\<open>condition\<close> argument. A call
  with the empty string succeeds and emits \<^verbatim>\<open>MessageSent\<close>; the identifier is listed by
  \<^verbatim>\<open>getAllMessageIds\<close>, yet \<^verbatim>\<open>getMessage\<close> and \<^verbatim>\<open>decryptMessage\<close> revert with "Message does
  not exist", and a second \<^verbatim>\<open>sendMessage\<close> with the same identifier is accepted and
  overwrites the record.
\<close>

theorem empty_condition_accepted:
  "sendMessage fake_fhe 7 100 ''m1'' 5 [1] 3700 False [] deployed =
     Inr ([MessageSent ''m1'' 7], m1_blank_sent) \<and>
   condition (encryptedMessages m1_blank_sent ''m1'') = [] \<and>
   encryptedContent (encryptedMessages m1_blank_sent ''m1'') = 5 \<and>
   getAllMessageIds m1_blank_sent = [''m1''] \<and>
   getMessage ''m1'' m1_blank_sent = Inl NotFound \<and>
   decryptMessage fake_fhe 110 ''m1'' (enc 42) [1] m1_blank_sent = Inl NotFound \<and>
   sendMessage fake_fhe 7 100 ''m1'' 5 [1] 3700 True ''dusk'' m1_blank_sent \<noteq> Inl DuplicateId"
proof -
  have first: "sendMessage fake_fhe 7 100 ''m1'' 5 [1] 3700 False [] deployed =
      Inr ([MessageSent ''m1'' 7], m1_blank_sent)"
    unfolding m1_blank_sent_def by (rule send_m1_deployed)
  have rest: "condition (encryptedMessages m1_blank_sent ''m1'') = []"
    "encryptedContent (encryptedMessages m1_blank_sent ''m1'') = 5"
    "getAllMessageIds m1_blank_sent = [''m1'']"
    "getMessage ''m1'' m1_blank_sent = Inl NotFound"
    "decryptMessage fake_fhe 110 ''m1'' (enc 42) [1] m1_blank_sent = Inl NotFound"
    "sendMessage fake_fhe 7 100 ''m1'' 5 [1] 3700 True ''dusk'' m1_blank_sent \<noteq> Inl DuplicateId"
    by (simp_all add: m1_blank_sent_eq getAllMessageIds_def getMessage_def decryptMessage_def
          sendMessage_def fake_fhe_def)
  from first rest show ?thesis
    by simp
qed

text \<open>
  C10: after a burn-after-read record has been decrypted, in any state reachable from
  deployment, and after any further transactions none of which is a \<^verbatim>\<open>sendMessage\<close> for
  that identifier with a non-empty condition, a \<^verbatim>\<open>sendMessage\<close> with the same identifier and
  a well-formed ciphertext succeeds again. It appends the identifier to \<^verbatim>\<open>messageIds\<close>, where
  the identifier already stood, so \<^verbatim>\<open>getAllMessageIds\<close> then holds it at least twice.
\<close>

theorem burned_id_sent_again:
  assumes "decryptMessage lib now mid clear prf (run lib deployed cs0) = Inr (evs, s1)"
    and "isBurnAfterReading (encryptedMessages (run lib deployed cs0) mid)"
    and "\<forall>c\<in>set cs. \<not> creates mid c"
    and "fromExternal lib who ext prf' = Some h"
    and "isInitialized lib h"
  shows "\<exists>s2. sendMessage lib who now' mid ext prf' expT burn cond (run lib s1 cs) =
                 Inr ([MessageSent mid who], s2) \<and>
              getAllMessageIds s2 = getAllMessageIds (run lib s1 cs) @ [mid] \<and>
              mid \<in> set (getAllMessageIds (run lib s1 cs)) \<and>
              2 \<le> count_list (getAllMessageIds s2) mid \<and>
              \<not> distinct (getAllMessageIds s2)"
proof -
  let ?s = "run lib deployed cs0"
  from decryptMessage_Inr(5) [OF assms(1)] assms(2)
  have s1: "s1 = ?s\<lparr>encryptedMessages := (encryptedMessages ?s)(mid := zeroMessage)\<rparr>"
    by auto
  then have "\<not> exists_msg s1 mid"
    by (simp add: exists_msg_def zeroMessage_def)
  then have gone: "\<not> exists_msg (run lib s1 cs) mid"
    using assms(3) by (rule run_absent)
  have "exists_msg ?s mid"
    using assms(1) by (rule decryptMessage_Inr(1))
  then have "mid \<in> set (messageIds ?s)"
    by (rule reachable_listed)
  with s1 have "mid \<in> set (messageIds s1)"
    by simp
  with run_messageIds [of s1 lib cs] have listed: "mid \<in> set (messageIds (run lib s1 cs))"
    by blast
  then have "1 \<le> count_list (messageIds (run lib s1 cs)) mid"
    by (metis count_list_0_iff not_less_eq_eq le_zero_eq One_nat_def)
  with gone listed assms(4,5) show ?thesis
    by (simp add: sendMessage_def exists_msg_def getAllMessageIds_def Let_def)
qed

theorem burned_id_sent_again_witness:
  "decryptMessage fake_fhe 110 ''m1'' (enc 42) [1] (run fake_fhe deployed [send_m1 True ''noon'']) =
     Inr ([MessageBurned ''m1''], m1_burn_read) \<and>
   isBurnAfterReading (encryptedMessages (run fake_fhe deployed [send_m1 True ''noon'']) ''m1'') \<and>
   fromExternal fake_fhe 7 5 [1] = Some 5 \<and> isInitialized fake_fhe 5 \<and>
   sendMessage fake_fhe 7 100 ''m1'' 5 [1] 3700 True ''dusk'' (run fake_fhe m1_burn_read []) =
     Inr ([MessageSent ''m1'' 7], m1_burn_resent) \<and>
   getAllMessageIds m1_burn_resent = [''m1'', ''m1''] \<and>
   \<not> distinct (getAllMessageIds m1_burn_resent)"
proof -
  have start: "run fake_fhe deployed [send_m1 True ''noon''] = m1_burn_sent"
    by (simp add: run_def m1_burn_sent_def)
  have dec: "decryptMessage fake_fhe 110 ''m1'' (enc 42) [1]
      (run fake_fhe deployed [send_m1 True ''noon'']) = Inr ([MessageBurned ''m1''], m1_burn_read)"
    by (simp add: start read_m1_burn)
  have burn: "isBurnAfterReading
      (encryptedMessages (run fake_fhe deployed [send_m1 True ''noon'']) ''m1'')"
    by (simp add: start m1_burn_sent_eq)
  have quiet: "\<forall>c\<in>set []. \<not> creates ''m1'' c"
    by simp
  have h: "fromExternal fake_fhe 7 5 [1] = Some 5" and init: "isInitialized fake_fhe 5"
    by (simp_all add: fake_fhe_def)
  have again: "sendMessage fake_fhe 7 100 ''m1'' 5 [1] 3700 True ''dusk''
      (run fake_fhe m1_burn_read []) = Inr ([MessageSent ''m1'' 7], m1_burn_resent)"
    unfolding run_Nil m1_burn_resent_eq m1_burn_read_eq
    by (simp add: sendMessage_def fake_fhe_def zeroMessage_def)
  from burned_id_sent_again [OF dec burn quiet h init, of 100 3700 True "''dusk''"] again
  have "\<not> distinct (getAllMessageIds m1_burn_resent)"
    by auto
  moreover have "getAllMessageIds m1_burn_resent = [''m1'', ''m1'']"
    by (simp add: m1_burn_resent_eq getAllMessageIds_def)
  ultimately show ?thesis
    using dec burn h init again by simp
qed

end
